theory Spec2Isabelle
  imports Main "HOL-Library.Word"
begin

unbundle bit_operations_syntax

section \<open>Python strings\<close>

text \<open>
  A Python \<open>str\<close> is a sequence of code points. The model is \<^typ>\<open>string\<close>, a list of
  \<^typ>\<open>char\<close>, each \<^typ>\<open>char\<close> standing for the code point of the same number, so
  the model covers the strings whose code points are below 256; \<open>len\<close> is
  \<^const>\<open>length\<close>. The character classes below are those of CPython for this range.
\<close>

definition isspace :: "char \<Rightarrow> bool" where
  \<comment> \<open>\<open>str.isspace\<close> on one character, which is also the class \<open>\s\<close> of \<open>re\<close>\<close>
  "isspace c = (let n = (of_char c :: nat) in
     (9 \<le> n \<and> n \<le> 13) \<or> (28 \<le> n \<and> n \<le> 32) \<or> n = 133 \<or> n = 160)"

definition is_linebreak :: "char \<Rightarrow> bool" where
  \<comment> \<open>the line boundaries of \<open>str.splitlines\<close>\<close>
  "is_linebreak c = (let n = (of_char c :: nat) in
     (10 \<le> n \<and> n \<le> 13) \<or> (28 \<le> n \<and> n \<le> 30) \<or> n = 133)"

definition is_word :: "char \<Rightarrow> bool" where
  \<comment> \<open>the class \<open>\w\<close> of \<open>re\<close>: alphanumeric or underscore\<close>
  "is_word c = (let n = (of_char c :: nat) in
     (48 \<le> n \<and> n \<le> 57) \<or> (65 \<le> n \<and> n \<le> 90) \<or> n = 95 \<or> (97 \<le> n \<and> n \<le> 122) \<or>
     n = 170 \<or> n = 178 \<or> n = 179 \<or> n = 181 \<or> n = 185 \<or> n = 186 \<or>
     (188 \<le> n \<and> n \<le> 190) \<or> (192 \<le> n \<and> n \<le> 214) \<or> (216 \<le> n \<and> n \<le> 246) \<or>
     (248 \<le> n \<and> n \<le> 255))"

definition lstrip :: "string \<Rightarrow> string" where
  "lstrip s = dropWhile isspace s"

definition rstrip :: "string \<Rightarrow> string" where
  "rstrip s = rev (dropWhile isspace (rev s))"

definition strip :: "string \<Rightarrow> string" where
  "strip s = rstrip (lstrip s)"

definition startswith :: "string \<Rightarrow> string \<Rightarrow> bool" where
  \<comment> \<open>\<open>s.startswith(p)\<close>\<close>
  "startswith s p = (take (length p) s = p)"

definition count_char :: "string \<Rightarrow> char \<Rightarrow> nat" where
  \<comment> \<open>\<open>s.count(c)\<close> for a one-character \<open>c\<close>\<close>
  "count_char s c = length (filter (\<lambda>x. x = c) s)"

fun splitlines :: "string \<Rightarrow> string list" where
  \<comment> \<open>\<open>str.splitlines()\<close>: a line ends at a line boundary, \<open>\r\n\<close> counts as one
     boundary, and no empty last line is produced after a final boundary\<close>
  "splitlines [] = []"
| "splitlines (c # cs) =
     (if c = CHR 0x0D then
        (case cs of
           [] \<Rightarrow> [[]]
         | d # ds \<Rightarrow> if d = CHR 0x0A then [] # splitlines ds else [] # splitlines cs)
      else if is_linebreak c then [] # splitlines cs
      else (case splitlines cs of [] \<Rightarrow> [[c]] | l # ls \<Rightarrow> (c # l) # ls))"

fun join_lines :: "string list \<Rightarrow> string" where
  \<comment> \<open>\<open>'\n'.join(ls)\<close>\<close>
  "join_lines [] = []"
| "join_lines [l] = l"
| "join_lines (l # ls) = l @ CHR 0x0A # join_lines ls"

definition replace_tabs :: "string \<Rightarrow> string" where
  \<comment> \<open>\<open>content.replace('\t', '  ')\<close>\<close>
  "replace_tabs s = concat (map (\<lambda>c. if c = CHR 0x09 then ''  '' else [c]) s)"

section \<open>Comment stripper\<close>

text \<open>
  \<open>re.sub(r'/\*.*?\*/', '', content, flags=re.DOTALL)\<close>: scanning from the left, a
  \<open>/*\<close> that has a \<open>*/\<close> somewhere after it is removed together with everything up to and
  including the first such \<open>*/\<close>, and the scan goes on behind it; a \<open>/*\<close> with no \<open>*/\<close>
  after it is kept.
\<close>

fun find_block_end :: "string \<Rightarrow> string option" where
  \<comment> \<open>what follows the first \<open>*/\<close>, if there is one\<close>
  "find_block_end (c # d # cs) =
     (if c = CHR ''*'' \<and> d = CHR ''/'' then Some cs else find_block_end (d # cs))"
| "find_block_end _ = None"

function strip_block_comments :: "string \<Rightarrow> string" where
  "strip_block_comments [] = []"
| "strip_block_comments (c # cs) =
     (if c = CHR ''/'' \<and> startswith cs ''*'' then
        (case find_block_end (tl cs) of
           Some rest \<Rightarrow> strip_block_comments rest
         | None \<Rightarrow> c # strip_block_comments cs)
      else c # strip_block_comments cs)"
  by pat_completeness auto
termination
proof (relation "measure length")
  have len: "length r < length xs" if "find_block_end xs = Some r" for xs r
    using that by (induction xs rule: find_block_end.induct) (auto split: if_splits)
  fix c :: char and cs rest :: string
  assume "c = CHR ''/'' \<and> startswith cs ''*''" and "find_block_end (tl cs) = Some rest"
  then have "length rest < length (tl cs)"
    using len by blast
  then show "(rest, c # cs) \<in> measure length"
    by simp
qed simp_all

text \<open>
  The scan of one line for an inline comment (the \<open>while i < len(line)\<close> loop): the
  argument is \<open>line[i:]\<close>, the result is what the loop appends to \<open>result\<close> from there on.
\<close>

fun scan_inline :: "bool \<Rightarrow> string \<Rightarrow> string" where
  "scan_inline in_str [] = []"
| "scan_inline in_str (ch # rest) =
     (if ch = CHR 0x22 \<or> ch = CHR 0x27 then ch # scan_inline (\<not> in_str) rest
      else if \<not> in_str \<and> (ch = CHR ''#'' \<or> take 2 (ch # rest) = ''//'') then []
      else ch # scan_inline in_str rest)"

fun in_str_after :: "bool \<Rightarrow> string \<Rightarrow> bool" where
  \<comment> \<open>the value of \<open>in_str\<close> when the loop has read the given characters without a break\<close>
  "in_str_after in_str [] = in_str"
| "in_str_after in_str (ch # rest) =
     in_str_after (if ch = CHR 0x22 \<or> ch = CHR 0x27 then \<not> in_str else in_str) rest"

definition clean_line :: "string \<Rightarrow> string list" where
  \<comment> \<open>the body of the loop over the lines: the lines it appends to \<open>cleaned_lines\<close>\<close>
  "clean_line line =
     (let stripped = lstrip line in
      if startswith stripped ''##'' \<or> startswith stripped ''///'' then [line]
      else if startswith stripped ''#'' \<or> startswith stripped ''//'' then []
      else (let stripped_result = rstrip (scan_inline False line) in
            if stripped_result \<noteq> [] then [stripped_result] else []))"

definition remove_comments :: "string \<Rightarrow> string" where
  "remove_comments content =
     join_lines (concat (map clean_line (splitlines (strip_block_comments content))))"

section \<open>The quote toggle of the comment stripper\<close>

text \<open>
  C9. In the scan of a line either quote character, single or double, flips the in-string
  flag, whatever kind of quote opened the string. On the line
  \<open>"it's a test" # comment\<close> the flag is therefore set when the scan reaches \<open>#\<close>, and
  \<open>remove_comments\<close> returns the line with \<open>#\<close> and the comment text still in it.
\<close>

theorem remove_comments_quote_toggle:
  \<open>scan_inline b (CHR 0x22 # rest) = CHR 0x22 # scan_inline (\<not> b) rest \<and>
   scan_inline b (CHR 0x27 # rest) = CHR 0x27 # scan_inline (\<not> b) rest \<and>
   in_str_after False ''"it's a test" '' = True \<and>
   remove_comments ''"it's a test" # comment'' = ''"it's a test" # comment''\<close>
  by (simp add: remove_comments_def clean_line_def lstrip_def rstrip_def startswith_def
      isspace_def is_linebreak_def)

end
